theory Spec2Isabelle
  imports Main "HOL-Library.Sublist"
begin

section \<open>Text primitives of the worker\<close>

text \<open>
  The worker is Python; its \<^verbatim>\<open>str\<close> values are modelled as \<^typ>\<open>string\<close>, one
  \<^typ>\<open>char\<close> per code point, so the texts of the model are the texts over the code
  points 0 to 255. On these the character classes are Python's own:
  \<open>is_space\<close> is \<^verbatim>\<open>str.isspace\<close>, which \<^verbatim>\<open>str.strip\<close>, \<^verbatim>\<open>str.split\<close> and
  \<^verbatim>\<open>\s\<close> use (TAB, LF, VT, FF, CR, FS, GS, RS, US, the blank, U+0085 and U+00A0);
  \<open>is_word\<close> is the class \<^verbatim>\<open>\w\<close> that decides \<^verbatim>\<open>\b\<close> (the characters with
  \<^verbatim>\<open>str.isalnum\<close>, and the underscore); \<open>lower_char\<close> is \<^verbatim>\<open>str.lower\<close> on one
  character. \<^verbatim>\<open>str.upper\<close> turns U+00DF into the two letters SS, so
  \<open>upper_chars\<close> gives a text; the capitals of U+00B5 and of U+00FF lie above 255,
  and \<open>upper_chars\<close> leaves these two characters as they are, the one place where
  the model is not Python's function.
\<close>

definition is_space :: "char \<Rightarrow> bool" where
  "is_space c \<longleftrightarrow>
     c \<in> set [CHR 0x09, CHR 0x0A, CHR 0x0B, CHR 0x0C, CHR 0x0D,
               CHR 0x1C, CHR 0x1D, CHR 0x1E, CHR 0x1F, CHR 0x20,
               CHR 0x85, CHR 0xA0]"

definition lower_char :: "char \<Rightarrow> char" where
  "lower_char c =
     (let n = (of_char c :: nat) in
      if (65 \<le> n \<and> n \<le> 90) \<or> (192 \<le> n \<and> n \<le> 222 \<and> n \<noteq> 215)
      then char_of (n + 32) else c)"

definition upper_chars :: "char \<Rightarrow> string" where
  "upper_chars c =
     (let n = (of_char c :: nat) in
      if n = 223 then ''SS''
      else if (97 \<le> n \<and> n \<le> 122) \<or> (224 \<le> n \<and> n \<le> 254 \<and> n \<noteq> 247)
      then [char_of (n - 32)] else [c])"

definition py_lower :: "string \<Rightarrow> string" where
  "py_lower s = map lower_char s"

definition py_upper :: "string \<Rightarrow> string" where
  "py_upper s = concat (map upper_chars s)"

definition py_lstrip :: "string \<Rightarrow> string" where
  "py_lstrip s = dropWhile is_space s"

definition py_rstrip :: "string \<Rightarrow> string" where
  "py_rstrip s = rev (dropWhile is_space (rev s))"

definition py_strip :: "string \<Rightarrow> string" where
  "py_strip s = py_rstrip (py_lstrip s)"

definition py_endswith :: "string \<Rightarrow> string \<Rightarrow> bool" where
  "py_endswith s suffix_text \<longleftrightarrow> suffix suffix_text s"

text \<open>
  \<^verbatim>\<open>s.split(None, 1)[0]\<close>: the first run of non-blank characters; the index 0 of the
  empty list that an all-blank text splits into raises IndexError, here \<^const>\<open>None\<close>.
\<close>

definition split_first :: "string \<Rightarrow> string option" where
  "split_first s =
     (case dropWhile is_space s of
        [] \<Rightarrow> None
      | c # cs \<Rightarrow> Some (takeWhile (\<lambda>x. \<not> is_space x) (c # cs)))"

text \<open>Decimal rendering of an integer, as an f-string prints it.\<close>

definition digit_char :: "nat \<Rightarrow> char" where
  "digit_char d = char_of (48 + d)"

fun str_nat :: "nat \<Rightarrow> string" where
  "str_nat n = (if n < 10 then [digit_char n] else str_nat (n div 10) @ [digit_char (n mod 10)])"

definition str_int :: "int \<Rightarrow> string" where
  "str_int i = (if i < 0 then CHR ''-'' # str_nat (nat (- i)) else str_nat (nat i))"

section \<open>Errors\<close>

text \<open>
  \<^verbatim>\<open>WorkerError(code, message)\<close> is the worker's own exception, a subclass of
  \<^verbatim>\<open>Exception\<close>; \<open>PyException\<close> is any other exception of class
  \<^verbatim>\<open>Exception\<close>, with the name of its class and its text;
  \<open>PyBaseException\<close> is an exception outside \<^verbatim>\<open>Exception\<close>
  (KeyboardInterrupt, SystemExit, GeneratorExit), which \<^verbatim>\<open>except Exception\<close> does
  not catch. \<open>is_exception err\<close> is \<^verbatim>\<open>isinstance(err, Exception)\<close> and
  \<open>error_text\<close> is \<^verbatim>\<open>str(err)\<close>.
\<close>

datatype py_error =
    WorkerError string string
  | PyException string string
  | PyBaseException string string

fun is_exception :: "py_error \<Rightarrow> bool" where
  "is_exception (WorkerError code message) = True"
| "is_exception (PyException cls message) = True"
| "is_exception (PyBaseException cls message) = False"

fun error_text :: "py_error \<Rightarrow> string" where
  "error_text (WorkerError code message) = message"
| "error_text (PyException cls message) = message"
| "error_text (PyBaseException cls message) = message"

definition IndexError :: py_error where
  "IndexError = PyException ''IndexError'' ''list index out of range''"

section \<open>A small regular-expression matcher\<close>

text \<open>
  The constructs that the validator's pattern uses. A match state is the character
  before the current position (for \<^verbatim>\<open>\b\<close>) and the text still to read;
  \<open>rmatch\<close> returns every state a match of the expression can end in, so that
  backtracking is the choice of an element.
\<close>

datatype regex =
    Lit string
  | PlusC "char \<Rightarrow> bool"
  | StarC "char \<Rightarrow> bool"
  | WordB
  | Seq regex regex
  | Alt regex regex

type_synonym mstate = "char option \<times> string"

definition is_word :: "char \<Rightarrow> bool" where
  "is_word c \<longleftrightarrow>
     (let n = (of_char c :: nat) in
        (97 \<le> n \<and> n \<le> 122) \<or> (65 \<le> n \<and> n \<le> 90) \<or> (48 \<le> n \<and> n \<le> 57) \<or> n = 95
        \<or> n \<in> set [170, 178, 179, 181, 185, 186, 188, 189, 190]
        \<or> (192 \<le> n \<and> n \<le> 255 \<and> n \<noteq> 215 \<and> n \<noteq> 247))"

definition is_lower_ident :: "char \<Rightarrow> bool" where
  \<comment> \<open>the class \<^verbatim>\<open>[a-z0-9_]\<close>\<close>
  "is_lower_ident c \<longleftrightarrow>
     (let n = (of_char c :: nat) in (97 \<le> n \<and> n \<le> 122) \<or> (48 \<le> n \<and> n \<le> 57) \<or> n = 95)"

fun star_states :: "(char \<Rightarrow> bool) \<Rightarrow> char option \<Rightarrow> string \<Rightarrow> mstate list" where
  "star_states p prev [] = [(prev, [])]"
| "star_states p prev (c # cs) =
     (prev, c # cs) # (if p c then star_states p (Some c) cs else [])"

definition at_word_boundary :: "mstate \<Rightarrow> bool" where
  "at_word_boundary st =
     (let word_before = (case fst st of None \<Rightarrow> False | Some c \<Rightarrow> is_word c);
          word_after = (case snd st of [] \<Rightarrow> False | c # _ \<Rightarrow> is_word c)
      in word_before \<noteq> word_after)"

fun rmatch :: "regex \<Rightarrow> mstate \<Rightarrow> mstate list" where
  "rmatch (Lit s) st =
     (if prefix s (snd st)
      then [(if s = [] then fst st else Some (last s), drop (length s) (snd st))]
      else [])"
| "rmatch (PlusC p) st =
     (case snd st of
        [] \<Rightarrow> []
      | c # cs \<Rightarrow> if p c then star_states p (Some c) cs else [])"
| "rmatch (StarC p) st = star_states p (fst st) (snd st)"
| "rmatch WordB st = (if at_word_boundary st then [st] else [])"
| "rmatch (Seq r1 r2) st = concat (map (rmatch r2) (rmatch r1 st))"
| "rmatch (Alt r1 r2) st = rmatch r1 st @ rmatch r2 st"

text \<open>\<^verbatim>\<open>re.search\<close>: a match may start at any position.\<close>

fun re_search_from :: "regex \<Rightarrow> char option \<Rightarrow> string \<Rightarrow> bool" where
  "re_search_from r prev [] = (rmatch r (prev, []) \<noteq> [])"
| "re_search_from r prev (c # cs) =
     (rmatch r (prev, c # cs) \<noteq> [] \<or> re_search_from r (Some c) cs)"

definition re_search :: "regex \<Rightarrow> string \<Rightarrow> bool" where
  "re_search r s = re_search_from r None s"

section \<open>The query validator\<close>

subsection \<open>The scanning copy\<close>

text \<open>
  \<^verbatim>\<open>_tabular_strip_sql_literals_and_comments\<close>: the loop over the index \<open>i\<close> is a
  recursion over the text from \<open>i\<close> on; \<open>out.append\<close> puts a character in front
  of what the rest of the loop emits.
\<close>

datatype scan_state = Normal | SingleQuote | DoubleQuote | LineComment | BlockComment

fun strip_loop :: "scan_state \<Rightarrow> string \<Rightarrow> string" where
  "strip_loop st [] = []"
| "strip_loop Normal (ch # rest) =
     (if ch = CHR 0x27 then CHR 0x20 # strip_loop SingleQuote rest
      else if ch = CHR 0x22 then CHR 0x20 # strip_loop DoubleQuote rest
      else (case rest of
              [] \<Rightarrow> ch # strip_loop Normal rest
            | nxt # rest' \<Rightarrow>
                if ch = CHR ''-'' \<and> nxt = CHR ''-'' then strip_loop LineComment rest'
                else if ch = CHR ''/'' \<and> nxt = CHR ''*'' then strip_loop BlockComment rest'
                else ch # strip_loop Normal rest))"
| "strip_loop SingleQuote (ch # rest) =
     (case rest of
        [] \<Rightarrow> strip_loop (if ch = CHR 0x27 then Normal else SingleQuote) rest
      | nxt # rest' \<Rightarrow>
          if ch = CHR 0x27 \<and> nxt = CHR 0x27 then strip_loop SingleQuote rest'
          else if ch = CHR 0x27 then strip_loop Normal rest
          else strip_loop SingleQuote rest)"
| "strip_loop DoubleQuote (ch # rest) =
     (case rest of
        [] \<Rightarrow> strip_loop (if ch = CHR 0x22 then Normal else DoubleQuote) rest
      | nxt # rest' \<Rightarrow>
          if ch = CHR 0x22 \<and> nxt = CHR 0x22 then strip_loop DoubleQuote rest'
          else if ch = CHR 0x22 then strip_loop Normal rest
          else strip_loop DoubleQuote rest)"
| "strip_loop LineComment (ch # rest) =
     (if ch = CHR 0x0A then CHR 0x0A # strip_loop Normal rest
      else strip_loop LineComment rest)"
| "strip_loop BlockComment (ch # rest) =
     (case rest of
        [] \<Rightarrow> (if ch = CHR 0x0A then [CHR 0x0A] else [])
      | nxt # rest' \<Rightarrow>
          if ch = CHR ''*'' \<and> nxt = CHR ''/'' then strip_loop Normal rest'
          else if ch = CHR 0x0A then CHR 0x0A # strip_loop BlockComment rest
          else strip_loop BlockComment rest)"

definition tabular_strip_sql_literals_and_comments :: "string \<Rightarrow> string" where
  "tabular_strip_sql_literals_and_comments sql = strip_loop Normal sql"

subsection \<open>The keyword scan\<close>

definition DANGEROUS_KEYWORDS :: "string list" where
  "DANGEROUS_KEYWORDS =
     [''insert'', ''update'', ''delete'', ''drop'', ''alter'', ''create'', ''replace'',
      ''truncate'', ''copy'', ''attach'', ''detach'', ''pragma'', ''set'', ''call'',
      ''vacuum'', ''analyze'', ''grant'', ''revoke'', ''comment'', ''install'',
      ''load'', ''export'', ''import'', ''merge'']"

definition IDENT_CONTEXT_TOKENS :: "string list" where
  "IDENT_CONTEXT_TOKENS =
     [''select'', ''from'', ''join'', ''on'', ''as'', ''by'', ''where'', ''having'',
      ''and'', ''or'', ''not'', ''in'', ''between'', ''like'', ''ilike'', ''is'',
      ''when'', ''then'', ''else'', ''distinct'', ''all'', ''over'', ''partition'',
      ''using'', ''limit'', ''offset'', ''case'', ''end'', ''with'', ''recursive'',
      ''filter'', ''within'', ''respect'', ''ignore'', ''nulls'', ''asc'', ''desc'',
      ''group'', ''order'', ''into'',
      '','', ''.'', ''('', '')'', ''='', ''<'', ''>'', ''!'', ''+'', ''-'', ''*'', ''/'',
      ''|'', ''&'', ''^'', ''~'', ''%'']"

definition is_split_punct :: "char \<Rightarrow> bool" where
  \<comment> \<open>the class \<^verbatim>\<open>[,;.()\[\]=<>!+\-*/|&^~%]\<close> of \<^verbatim>\<open>_TOKEN_SPLIT_RE\<close>\<close>
  "is_split_punct c \<longleftrightarrow> c \<in> set '',;.()[]=<>!+-*/|&^~%''"

text \<open>
  \<^verbatim>\<open>_TOKEN_SPLIT_RE.split\<close>, a split on a pattern with one capturing group: the
  pieces between the separators (empty where two separators touch) alternate with the
  separators themselves, a maximal run of white space or one punctuation character.
  \<open>cur\<close> is the piece being read.
\<close>

function token_split :: "string \<Rightarrow> string \<Rightarrow> string list" where
  "token_split cur [] = [cur]"
| "token_split cur (c # cs) =
     (if is_space c
      then cur # (c # takeWhile is_space cs) # token_split [] (dropWhile is_space cs)
      else if is_split_punct c then cur # [c] # token_split [] cs
      else token_split (cur @ [c]) cs)"
  by pat_completeness auto
termination
  by (relation "measure (\<lambda>(cur, s). length s)")
     (auto simp: length_dropWhile_le less_Suc_eq_le)

definition sql_tokens :: "string \<Rightarrow> string list" where
  "sql_tokens lowered_sql = filter (\<lambda>p. py_strip p \<noteq> []) (token_split [] lowered_sql)"

fun find_dangerous_loop :: "string option \<Rightarrow> string list \<Rightarrow> string option" where
  "find_dangerous_loop prev [] = None"
| "find_dangerous_loop prev (token # tokens) =
     (if token \<in> set DANGEROUS_KEYWORDS
      then (if (case prev of None \<Rightarrow> False | Some p \<Rightarrow> p \<in> set IDENT_CONTEXT_TOKENS)
            then find_dangerous_loop (Some token) tokens
            else Some token)
      else find_dangerous_loop (Some token) tokens)"

definition tabular_find_dangerous_keyword :: "string \<Rightarrow> string option" where
  "tabular_find_dangerous_keyword lowered_sql = find_dangerous_loop None (sql_tokens lowered_sql)"

subsection \<open>The validator\<close>

text \<open>
  The pattern of the last check,
  \<^verbatim>\<open>\b(read_[a-z0-9_]+|[a-z0-9_]+_scan|glob|open_url|httpfs|read_csv|read_parquet|read_json)\s*\(\<close>.
\<close>

definition path_function_re :: regex where
  "path_function_re =
     Seq WordB
       (Seq (Alt (Seq (Lit ''read_'') (PlusC is_lower_ident))
            (Alt (Seq (PlusC is_lower_ident) (Lit ''_scan''))
            (Alt (Lit ''glob'')
            (Alt (Lit ''open_url'')
            (Alt (Lit ''httpfs'')
            (Alt (Lit ''read_csv'')
            (Alt (Lit ''read_parquet'') (Lit ''read_json''))))))))
          (Seq (StarC is_space) (Lit ''('')))"

definition validation_failed :: "string \<Rightarrow> py_error" where
  "validation_failed message = WorkerError ''VALIDATION_FAILED'' message"

text \<open>
  \<^verbatim>\<open>_tabular_validate_query\<close> in two parts. The first is the function up to the test
  of the first token: it returns the query text to hand back and the scanning copy,
  both with the final semicolon taken off.
\<close>

definition tabular_validate_head :: "string option \<Rightarrow> py_error + (string \<times> string)" where
  "tabular_validate_head raw_query =
     (case raw_query of
        None \<Rightarrow> Inl (validation_failed ''missing query'')
      | Some raw \<Rightarrow>
          let query = py_strip raw in
          if query = [] then Inl (validation_failed ''missing query'')
          else
            let checked = py_strip (tabular_strip_sql_literals_and_comments query) in
            if checked = [] then Inl (validation_failed ''invalid query'')
            else
              let semicolon_count = count_list checked (CHR '';'') in
              if semicolon_count > 1
              then Inl (validation_failed ''query must be a single statement'')
              else if semicolon_count = 1 \<and> \<not> py_endswith checked '';''
              then Inl (validation_failed ''query must be a single statement'')
              else if semicolon_count = 1 \<and> \<not> py_endswith (py_rstrip query) '';''
              then Inl (validation_failed (''query must end with ';'' @ [CHR 0x27]))
              else
                let checked' = (if semicolon_count = 1 then py_strip (butlast checked)
                                else checked);
                    query' = (if semicolon_count = 1 then py_strip (butlast (py_rstrip query))
                              else query)
                in
                if checked' = [] then Inl (validation_failed ''invalid query'')
                else
                  (case split_first checked' of
                     None \<Rightarrow> Inl IndexError
                   | Some first_token \<Rightarrow>
                       if py_lower first_token \<notin> set [''select'', ''with'']
                       then Inl (validation_failed ''only SELECT/CTE queries are allowed'')
                       else Inr (query', checked')))"

text \<open>The second part: the keyword scan and the pattern, on the lowered scanning copy.\<close>

definition tabular_validate_query :: "string option \<Rightarrow> py_error + string" where
  "tabular_validate_query raw_query =
     (case tabular_validate_head raw_query of
        Inl err \<Rightarrow> Inl err
      | Inr (query, checked) \<Rightarrow>
          let lowered = py_lower checked in
          if tabular_find_dangerous_keyword lowered \<noteq> None
          then Inl (validation_failed ''query must be read-only'')
          else if re_search path_function_re lowered
          then Inl (validation_failed ''path-reading functions are not allowed'')
          else Inr query)"

section \<open>Chunk ranges of \<^verbatim>\<open>get_map\<close>\<close>

text \<open>
  A chunk is the dictionary \<^verbatim>\<open>{"index": index, "rows": f"{start}-{end}"}\<close>; the record
  keeps the two row numbers, and \<open>chunk_rows_text\<close> is the text stored under
  \<^verbatim>\<open>"rows"\<close>.
\<close>

record chunk =
  chunk_index :: int
  first_row :: int
  last_row :: int

definition chunk_rows_text :: "chunk \<Rightarrow> string" where
  "chunk_rows_text c = str_int (first_row c) @ ''-'' @ str_int (last_row c)"

definition TABULAR_CHUNK_ROWS :: int where
  "TABULAR_CHUNK_ROWS = 100"

text \<open>
  The \<^verbatim>\<open>while start <= total_rows\<close> loop of \<^verbatim>\<open>_tabular_chunks\<close>. Nothing in the
  function keeps \<open>chunk_rows\<close> positive, and with \<open>chunk_rows \<le> 0\<close> the loop does
  not advance, so the loop is a partial function: \<^const>\<open>None\<close> is a run that never
  returns.
\<close>

partial_function (option) chunks_loop ::
  "int \<Rightarrow> int \<Rightarrow> int \<Rightarrow> int \<Rightarrow> chunk list \<Rightarrow> chunk list option" where
  "chunks_loop total_rows chunk_rows start idx chunks =
     (if start \<le> total_rows
      then chunks_loop total_rows chunk_rows
             (min (start + chunk_rows - 1) total_rows + 1) (idx + 1)
             (chunks @ [\<lparr>chunk_index = idx, first_row = start,
                          last_row = min (start + chunk_rows - 1) total_rows\<rparr>])
      else Some chunks)"

declare chunks_loop.simps [code]

definition tabular_chunks :: "int \<Rightarrow> int \<Rightarrow> chunk list option" where
  "tabular_chunks total_rows chunk_rows =
     (if total_rows \<le> 0 then Some [] else chunks_loop total_rows chunk_rows 1 0 [])"

text \<open>The chunk with index \<open>j\<close> of a table of \<open>N\<close> rows, in closed form, for the proofs.\<close>

definition chunk_at :: "int \<Rightarrow> int \<Rightarrow> chunk" where
  "chunk_at N j = \<lparr>chunk_index = j, first_row = 100 * j + 1, last_row = min (100 * j + 100) N\<rparr>"

section \<open>The inferred column type\<close>

text \<open>\<^verbatim>\<open>x in t\<close> on texts: \<open>x\<close> occurs in \<open>t\<close> as a contiguous piece.\<close>

fun py_contains :: "string \<Rightarrow> string \<Rightarrow> bool" where
  "py_contains x [] = (x = [])"
| "py_contains x (c # cs) = (prefix x (c # cs) \<or> py_contains x cs)"

definition integer_types :: "string list" where
  "integer_types =
     [''TINYINT'', ''SMALLINT'', ''INTEGER'', ''INT'', ''BIGINT'', ''HUGEINT'',
      ''UTINYINT'', ''USMALLINT'', ''UINTEGER'', ''UBIGINT'']"

definition tabular_inferred_type :: "string \<Rightarrow> string" where
  "tabular_inferred_type db_type =
     (let t = py_upper (py_strip db_type) in
      if t = [] then ''string''
      else if t \<in> set integer_types then ''integer''
      else if list_ex (\<lambda>x. py_contains x t)
                [''DECIMAL'', ''NUMERIC'', ''DOUBLE'', ''FLOAT'', ''REAL'']
      then ''float''
      else if t \<in> set [''BOOLEAN'', ''BOOL''] then ''boolean''
      else if list_ex (\<lambda>x. py_contains x t) [''DATE'', ''TIME''] then ''date''
      else if list_ex (\<lambda>x. py_contains x t)
                [''CHAR'', ''TEXT'', ''STRING'', ''VARCHAR'', ''UUID'', ''JSON'']
      then ''string''
      else ''string'')"

section \<open>The cancellation supervisor\<close>

text \<open>
  \<^verbatim>\<open>_tabular_run_with_timeout\<close>. The timer runs on a thread of its own; what the
  function does depends on that thread only through the flag \<^verbatim>\<open>timed_out\<close> at the
  moment the operation raises, which is the argument \<open>fired\<close>. The operation is
  given by its outcome, \<^const>\<open>Inl\<close> the exception it raises. The keyword arguments
  \<^verbatim>\<open>timeout_ms\<close> and \<^verbatim>\<open>error_code\<close> are \<^const>\<open>None\<close> when the caller leaves
  them out; the worker-wide setting \<^verbatim>\<open>TABULAR_QUERY_TIMEOUT_MS\<close>, which the worker
  reads from its environment at start, is the first argument. The handler is
  \<^verbatim>\<open>except Exception\<close>: an exception outside that class passes through it, whatever
  the flag. The second component of the result records the timer: whether one was
  started and whether it was cancelled on the way out.
\<close>

record timer_trace =
  timer_started :: bool
  timer_cancelled :: bool

definition timeout_message :: "int \<Rightarrow> string" where
  "timeout_message timeout = ''query timed out after '' @ str_int timeout @ ''ms''"

definition tabular_run_with_timeout ::
  "int \<Rightarrow> int option \<Rightarrow> string option \<Rightarrow> bool \<Rightarrow> py_error + 'a
     \<Rightarrow> (py_error + 'a) \<times> timer_trace" where
  "tabular_run_with_timeout TABULAR_QUERY_TIMEOUT_MS timeout_ms error_code_arg fired operation =
     (let error_code = (case error_code_arg of Some c \<Rightarrow> c | None \<Rightarrow> ''FILE_READ_FAILED'');
          timeout = (case timeout_ms of Some t \<Rightarrow> t | None \<Rightarrow> TABULAR_QUERY_TIMEOUT_MS)
      in
      if timeout \<le> 0
      then (operation, \<lparr>timer_started = False, timer_cancelled = False\<rparr>)
      else
        ((case operation of
            Inr result \<Rightarrow> Inr result
          | Inl err \<Rightarrow>
              if is_exception err
              then (if fired then Inl (WorkerError error_code (timeout_message timeout))
                    else Inl err)
              else Inl err),
         \<lparr>timer_started = True, timer_cancelled = True\<rparr>))"

subsection \<open>The callers that export\<close>

text \<open>
  \<^verbatim>\<open>_tabular_export_csv\<close> and \<^verbatim>\<open>_tabular_export_xlsx\<close> run their nested function
  \<^verbatim>\<open>_export\<close>, given by its outcome (the number of rows and of columns written),
  under the supervisor, and \<^verbatim>\<open>_tabular_query_rows_for_export\<close> does so with
  \<^verbatim>\<open>_read_rows\<close> (the column names and the rows). None of them passes a timeout. The
  spreadsheet writer imports \<^verbatim>\<open>openpyxl\<close> before it starts the supervisor;
  \<open>openpyxl\<close> is the exception of an import that fails.
\<close>

definition tabular_export_csv ::
  "int \<Rightarrow> bool \<Rightarrow> py_error + int \<times> int \<Rightarrow> (py_error + int \<times> int) \<times> timer_trace" where
  "tabular_export_csv TABULAR_QUERY_TIMEOUT_MS fired export =
     tabular_run_with_timeout TABULAR_QUERY_TIMEOUT_MS None (Some ''FILE_WRITE_FAILED'') fired export"

definition tabular_export_xlsx ::
  "int \<Rightarrow> py_error option \<Rightarrow> bool \<Rightarrow> py_error + int \<times> int
     \<Rightarrow> (py_error + int \<times> int) \<times> timer_trace" where
  "tabular_export_xlsx TABULAR_QUERY_TIMEOUT_MS openpyxl fired export =
     (case openpyxl of
        Some err \<Rightarrow> (Inl err, \<lparr>timer_started = False, timer_cancelled = False\<rparr>)
      | None \<Rightarrow>
          tabular_run_with_timeout TABULAR_QUERY_TIMEOUT_MS None (Some ''FILE_WRITE_FAILED'')
            fired export)"

definition tabular_query_rows_for_export ::
  "int \<Rightarrow> bool \<Rightarrow> py_error + string list \<times> 'v list list
     \<Rightarrow> (py_error + string list \<times> 'v list list) \<times> timer_trace" where
  "tabular_query_rows_for_export TABULAR_QUERY_TIMEOUT_MS fired read_rows =
     tabular_run_with_timeout TABULAR_QUERY_TIMEOUT_MS None (Some ''FILE_READ_FAILED'') fired read_rows"

section \<open>The CSV export writer and the files\<close>

text \<open>
  The files that the export touches are a map from paths to contents; the content of a
  CSV file is the list of the rows written to it, a row being the list of the texts of
  its cells. A cursor is what \<^verbatim>\<open>conn.execute(query)\<close> returns: the column names of
  its description, and what the successive calls of \<^verbatim>\<open>fetchmany\<close> give, a batch of
  rows or an exception; past the end of that list a fetch gives the empty batch.
  \<open>cell\<close> is the text that the CSV writer puts for a value coming from
  \<^verbatim>\<open>_tabular_csv_cell_value\<close>.
\<close>

type_synonym csv_file = "string list list"

type_synonym files = "string \<rightharpoonup> csv_file"

record 'v cursor =
  cursor_columns :: "string list"
  cursor_fetches :: "(py_error + 'v list list) list"

text \<open>
  The \<^verbatim>\<open>while True\<close> loop of \<^verbatim>\<open>_export\<close> in \<^verbatim>\<open>_tabular_export_csv\<close>, on the open
  file at \<open>target_path\<close>: every row of a batch is written and counted; an empty
  batch ends the loop; an exception of a fetch leaves the \<^verbatim>\<open>with\<close> block, which
  closes the file with what has been written.
\<close>

fun export_csv_loop ::
  "('v \<Rightarrow> string) \<Rightarrow> (py_error + 'v list list) list \<Rightarrow> string \<Rightarrow> files \<Rightarrow> int
     \<Rightarrow> (py_error + int) \<times> files" where
  "export_csv_loop cell [] target_path fs row_count = (Inr row_count, fs)"
| "export_csv_loop cell (Inl err # fetches) target_path fs row_count = (Inl err, fs)"
| "export_csv_loop cell (Inr batch # fetches) target_path fs row_count =
     (if batch = [] then (Inr row_count, fs)
      else export_csv_loop cell fetches target_path
             (fs(target_path \<mapsto>
                   (case fs target_path of None \<Rightarrow> [] | Some written \<Rightarrow> written)
                   @ map (map cell) batch))
             (row_count + int (length batch)))"

text \<open>
  The nested function \<^verbatim>\<open>_export\<close> of \<^verbatim>\<open>_tabular_export_csv\<close>. \<open>execute\<close> is the
  outcome of \<^verbatim>\<open>conn.execute(query)\<close>, \<open>makedirs\<close> and \<open>open_target\<close> are the
  exceptions of \<^verbatim>\<open>os.makedirs\<close> and of \<^verbatim>\<open>open(target_path, "w")\<close> when these fail.
  Opening the target for writing empties it; the header row is written first. The
  function writes to \<open>target_path\<close> itself and to no other path.
\<close>

definition export_csv ::
  "('v \<Rightarrow> string) \<Rightarrow> py_error + 'v cursor \<Rightarrow> py_error option \<Rightarrow> py_error option \<Rightarrow> string
     \<Rightarrow> files \<Rightarrow> (py_error + int \<times> int) \<times> files" where
  "export_csv cell execute makedirs open_target target_path fs =
     (case execute of
        Inl err \<Rightarrow> (Inl err, fs)
      | Inr cursor \<Rightarrow>
          let columns = cursor_columns cursor in
          (case makedirs of
             Some err \<Rightarrow> (Inl err, fs)
           | None \<Rightarrow>
               (case open_target of
                  Some err \<Rightarrow> (Inl err, fs)
                | None \<Rightarrow>
                    (case export_csv_loop cell (cursor_fetches cursor) target_path
                            (fs(target_path \<mapsto> [columns])) 0 of
                       (Inl err, fs') \<Rightarrow> (Inl err, fs')
                     | (Inr row_count, fs') \<Rightarrow>
                         (Inr (row_count, int (length columns)), fs')))))"

text \<open>
  A draft that holds \<^verbatim>\<open>out.csv\<close> from an earlier export, a header and two rows, and a
  cursor over one column whose first fetch is interrupted.
\<close>

definition earlier_files :: files where
  "earlier_files = [''out.csv'' \<mapsto> [[''id''], [''1''], [''2'']]]"

definition interrupted_cursor :: "int cursor" where
  "interrupted_cursor =
     \<lparr>cursor_columns = [''id''],
      cursor_fetches = [Inl (PyException ''RuntimeError'' ''interrupted'')]\<rparr>"

section \<open>The message of a timeout of 5000 ms\<close>

lemma digit_char_values: "digit_char 5 = CHR ''5''" "digit_char 0 = CHR ''0''"
  by code_simp+

lemma timeout_message_5000: "timeout_message 5000 = ''query timed out after 5000ms''"
proof -
  have "(5000::nat) div 10 = 500" "(5000::nat) mod 10 = 0" "(500::nat) div 10 = 50"
    "(500::nat) mod 10 = 0" "(50::nat) div 10 = 5" "(50::nat) mod 10 = 0"
    by simp_all
  then show ?thesis
    by (simp add: timeout_message_def str_int_def digit_char_values)
qed


section \<open>The validator on the six literal queries\<close>

lemma validate_select_1:
  "tabular_validate_query (Some ''SELECT 1'') = Inr ''SELECT 1''"
  by code_simp

lemma validate_two_statements:
  "tabular_validate_query (Some ''SELECT * FROM data; DROP TABLE data'')
     = Inl (WorkerError ''VALIDATION_FAILED'' ''query must be a single statement'')"
  by code_simp

lemma validate_drop_table:
  "tabular_validate_query (Some ''DROP TABLE data'')
     = Inl (WorkerError ''VALIDATION_FAILED'' ''only SELECT/CTE queries are allowed'')"
  by code_simp

lemma validate_comment_column:
  "tabular_validate_query (Some ''SELECT Comment FROM data'') = Inr ''SELECT Comment FROM data''"
  by code_simp

lemma validate_read_csv:
  "tabular_validate_query (Some ''SELECT * FROM read_csv('x.csv')'')
     = Inl (WorkerError ''VALIDATION_FAILED'' ''path-reading functions are not allowed'')"
  by code_simp

lemma validate_trailing_semicolon:
  "tabular_validate_query (Some ''SELECT 1;'') = Inr ''SELECT 1''"
  by code_simp

text \<open>
  Claim C1. The validator settles the six literal cases of the specification as listed:
  \<^verbatim>\<open>SELECT 1\<close> is accepted; \<^verbatim>\<open>SELECT * FROM data; DROP TABLE data\<close> is rejected as
  more than one statement; \<^verbatim>\<open>DROP TABLE data\<close> is rejected because its first token
  is neither select nor with; \<^verbatim>\<open>SELECT Comment FROM data\<close> is accepted;
  \<^verbatim>\<open>SELECT * FROM read_csv('x.csv')\<close> is rejected as a path-reading function; and
  \<^verbatim>\<open>SELECT 1;\<close> is accepted and handed back without its semicolon. Every rejection
  carries the code VALIDATION_FAILED.
\<close>

theorem validator_literal_cases:
  "tabular_validate_query (Some ''SELECT 1'') = Inr ''SELECT 1''
   \<and> tabular_validate_query (Some ''SELECT * FROM data; DROP TABLE data'')
       = Inl (WorkerError ''VALIDATION_FAILED'' ''query must be a single statement'')
   \<and> tabular_validate_query (Some ''DROP TABLE data'')
       = Inl (WorkerError ''VALIDATION_FAILED'' ''only SELECT/CTE queries are allowed'')
   \<and> tabular_validate_query (Some ''SELECT Comment FROM data'') = Inr ''SELECT Comment FROM data''
   \<and> tabular_validate_query (Some ''SELECT * FROM read_csv('x.csv')'')
       = Inl (WorkerError ''VALIDATION_FAILED'' ''path-reading functions are not allowed'')
   \<and> tabular_validate_query (Some ''SELECT 1;'') = Inr ''SELECT 1''"
  using validate_select_1 validate_two_statements validate_drop_table
    validate_comment_column validate_read_csv validate_trailing_semicolon
  by blast
section \<open>A final semicolon inside a comment\<close>

text \<open>
  Claim C3. A lone semicolon of the scanning copy is to be accepted only when it is the
  last character, white space apart, of the original text too, and it is that semicolon
  which is to be taken off. The validator tests the original text only for ending in
  some semicolon. In \<^verbatim>\<open>SELECT 1; --;\<close> the scanning copy is \<^verbatim>\<open>SELECT 1; \<close>, with the
  statement's semicolon alone, and the original text ends in the semicolon of the
  comment: the query is accepted, the comment's semicolon is the one taken off, and the
  text handed back still holds the statement's semicolon, followed by an open comment.
\<close>

theorem validator_semicolon_in_comment:
  "tabular_strip_sql_literals_and_comments ''SELECT 1; --;'' = ''SELECT 1; ''
   \<and> tabular_validate_query (Some ''SELECT 1; --;'') = Inr ''SELECT 1; --''"
proof -
  have "tabular_strip_sql_literals_and_comments ''SELECT 1; --;'' = ''SELECT 1; ''"
    by code_simp
  moreover have "tabular_validate_query (Some ''SELECT 1; --;'') = Inr ''SELECT 1; --''"
    by code_simp
  ultimately show ?thesis
    by blast
qed

section \<open>The keyword scan decides by the token before\<close>

subsection \<open>The loop over the tokens\<close>

lemma find_dangerous_loop_iff:
  "find_dangerous_loop prev tokens \<noteq> None \<longleftrightarrow>
     (\<exists>i<length tokens. tokens ! i \<in> set DANGEROUS_KEYWORDS
        \<and> \<not> (case (if i = 0 then prev else Some (tokens ! (i - 1))) of
                 None \<Rightarrow> False | Some p \<Rightarrow> p \<in> set IDENT_CONTEXT_TOKENS))"
proof (induction tokens arbitrary: prev)
  case Nil
  show ?case by simp
next
  case (Cons t ts)
  have later: "(\<exists>i<length ts. (t # ts) ! Suc i \<in> set DANGEROUS_KEYWORDS
                 \<and> \<not> (case (if Suc i = 0 then prev else Some ((t # ts) ! (Suc i - 1))) of
                          None \<Rightarrow> False | Some p \<Rightarrow> p \<in> set IDENT_CONTEXT_TOKENS))
               \<longleftrightarrow> find_dangerous_loop (Some t) ts \<noteq> None"
    unfolding Cons.IH [of "Some t"]
    by (intro ex_cong1) (auto simp: nth_Cons split: nat.splits)
  show ?case
    unfolding length_Cons Ex_less_Suc2 later
    by (simp del: set_simps)
qed

subsection \<open>The first token of an accepted query\<close>

lemma is_space_code:
  "is_space c \<longleftrightarrow> (of_char c :: nat) \<in> {9, 10, 11, 12, 13, 28, 29, 30, 31, 32, 133, 160}"
proof -
  have code: "c = d \<longleftrightarrow> (of_char c :: nat) = of_char d" for d :: char
    by simp
  show ?thesis
    unfolding is_space_def
    by (simp only: list.set insert_iff empty_iff code) (simp del: of_char_eq_iff)
qed

lemma is_space_lower_char: "is_space (lower_char c) \<longleftrightarrow> is_space c"
proof -
  have "(of_char (char_of (n + 32 :: nat) :: char) :: nat) = n + 32" if "n \<le> 222" for n
    using that by simp
  then show ?thesis
    by (auto simp: is_space_code lower_char_def Let_def)
qed

lemma keyword_chars:
  "\<forall>c\<in>set ''select''. \<not> is_space c \<and> \<not> is_split_punct c"
  "\<forall>c\<in>set ''with''. \<not> is_space c \<and> \<not> is_split_punct c"
  by code_simp+

lemma token_split_word:
  "\<forall>c\<in>set w. \<not> is_space c \<and> \<not> is_split_punct c
     \<Longrightarrow> token_split cur (w @ r) = token_split (cur @ w) r"
  by (induction w arbitrary: cur) simp_all

lemma py_strip_blank:
  assumes "\<forall>c\<in>set s. is_space c"
  shows "py_strip s = []"
proof -
  have blank: "dropWhile is_space s = []"
    using assms by simp
  show ?thesis
    unfolding py_strip_def py_lstrip_def py_rstrip_def
    by (simp only: blank rev.simps dropWhile.simps)
qed

lemma py_strip_word: "\<forall>c\<in>set w. \<not> is_space c \<Longrightarrow> py_strip w = w"
proof (cases w rule: rev_cases)
  case Nil
  then show ?thesis
    by (simp add: py_strip_def py_lstrip_def py_rstrip_def)
next
  case (snoc ys y)
  assume "\<forall>c\<in>set w. \<not> is_space c"
  then have "py_lstrip w = w"
    by (cases w) (simp_all add: py_lstrip_def)
  moreover have "py_rstrip w = w"
    using snoc \<open>\<forall>c\<in>set w. \<not> is_space c\<close> by (simp add: py_rstrip_def)
  ultimately show ?thesis
    by (simp add: py_strip_def)
qed

lemma token_split_after_word:
  assumes "w \<noteq> []" and "\<forall>c\<in>set w. \<not> is_space c \<and> \<not> is_split_punct c"
    and "r = [] \<or> is_space (hd r)"
  shows "\<exists>pieces. token_split [] (w @ r) = w # pieces"
proof (cases r)
  case Nil
  then show ?thesis
    using assms(2) token_split_word [of w "[]" "[]"] by simp
next
  case (Cons d r')
  then have "is_space d"
    using assms(3) by simp
  then show ?thesis
    using assms(2) token_split_word [of w "[]" r] Cons by simp
qed

lemma sql_tokens_first:
  assumes first: "dropWhile is_space s = c # cs"
    and w: "w = takeWhile (\<lambda>x. \<not> is_space x) (c # cs)"
    and punct: "\<forall>x\<in>set w. \<not> is_split_punct x"
  shows "\<exists>rest. sql_tokens s = w # rest"
proof -
  define sp where "sp = takeWhile is_space s"
  define r where "r = dropWhile (\<lambda>x. \<not> is_space x) (c # cs)"
  have s: "s = sp @ w @ r"
    using first by (simp add: sp_def r_def w del: takeWhile.simps dropWhile.simps)
      (metis takeWhile_dropWhile_id)
  have c: "\<not> is_space c"
    using first hd_dropWhile [of is_space s] by simp
  then have w_ne: "w \<noteq> []"
    by (simp add: w)
  have w_chars: "\<forall>x\<in>set w. \<not> is_space x \<and> \<not> is_split_punct x"
    using punct by (auto simp: w dest: set_takeWhileD)
  have r_head: "r = [] \<or> is_space (hd r)"
  proof (cases "r = []")
    case False
    then have "\<not> \<not> is_space (hd r)"
      unfolding r_def by (rule hd_dropWhile)
    then show ?thesis
      by simp
  qed simp
  obtain pieces where pieces: "token_split [] (w @ r) = w # pieces"
    using token_split_after_word [OF w_ne w_chars r_head] by blast
  have keep: "py_strip w \<noteq> []"
    using py_strip_word [of w] w_chars w_ne by simp
  have sp_blank: "\<forall>x\<in>set sp. is_space x"
    by (auto simp: sp_def dest: set_takeWhileD)
  show ?thesis
  proof (cases sp)
    case Nil
    then show ?thesis
      using s pieces keep by (simp add: sql_tokens_def)
  next
    case (Cons a sp')
    have wr: "w @ r = c # cs"
      by (simp add: w r_def del: takeWhile.simps dropWhile.simps)
    have blank': "\<forall>x\<in>set sp'. is_space x" and a: "is_space a"
      using sp_blank Cons by simp_all
    have "dropWhile is_space (sp' @ w @ r) = w @ r"
      using blank' c by (simp add: wr del: append_assoc)
    moreover have "takeWhile is_space (sp' @ w @ r) = sp'"
      using blank' c by (simp add: wr del: append_assoc)
    ultimately have "token_split [] s = [] # sp # w # pieces"
      using s Cons a pieces by simp
    moreover have "py_strip sp = []"
      using sp_blank by (rule py_strip_blank)
    moreover have "py_strip [] = []"
      by (simp add: py_strip_blank)
    ultimately show ?thesis
      using keep by (simp add: sql_tokens_def)
  qed
qed


lemma validate_head_first_token:
  assumes "tabular_validate_head raw_query = Inr (query, checked)"
  shows "\<exists>first_token. split_first checked = Some first_token
           \<and> (py_lower first_token = ''select'' \<or> py_lower first_token = ''with'')"
  using assms unfolding tabular_validate_head_def
  by (auto simp: Let_def split: option.splits if_splits)

lemma split_first_lowered:
  assumes "split_first s = Some w"
  shows "\<exists>c cs. dropWhile is_space (py_lower s) = c # cs
           \<and> py_lower w = takeWhile (\<lambda>x. \<not> is_space x) (c # cs)"
proof -
  obtain c cs where first: "dropWhile is_space s = c # cs"
    and w: "w = takeWhile (\<lambda>x. \<not> is_space x) (c # cs)"
    using assms by (auto simp: split_first_def split: list.splits)
  have same: "is_space \<circ> lower_char = is_space"
    by (rule ext) (simp add: is_space_lower_char)
  have same': "(\<lambda>x. \<not> is_space x) \<circ> lower_char = (\<lambda>x. \<not> is_space x)"
    by (rule ext) (simp add: is_space_lower_char)
  have "dropWhile is_space (py_lower s) = map lower_char (c # cs)"
    unfolding py_lower_def dropWhile_map same first ..
  moreover have "py_lower w = takeWhile (\<lambda>x. \<not> is_space x) (map lower_char (c # cs))"
    unfolding py_lower_def takeWhile_map same' w ..
  ultimately show ?thesis
    by simp
qed

lemma accepted_head_tokens:
  assumes "tabular_validate_head raw_query = Inr (query, checked)"
  shows "\<exists>rest. sql_tokens (py_lower checked) = ''select'' # rest
               \<or> sql_tokens (py_lower checked) = ''with'' # rest"
proof -
  obtain first_token where first: "split_first checked = Some first_token"
    and kw: "py_lower first_token = ''select'' \<or> py_lower first_token = ''with''"
    using validate_head_first_token [OF assms] by blast
  obtain c cs where lowered: "dropWhile is_space (py_lower checked) = c # cs"
    and w: "py_lower first_token = takeWhile (\<lambda>x. \<not> is_space x) (c # cs)"
    using split_first_lowered [OF first] by blast
  have "\<forall>x\<in>set (py_lower first_token). \<not> is_split_punct x"
    using kw keyword_chars by auto
  then obtain rest where "sql_tokens (py_lower checked) = py_lower first_token # rest"
    using sql_tokens_first [OF lowered w] by blast
  then show ?thesis
    using kw by auto
qed

lemma keywords_in_context:
  "''select'' \<notin> set DANGEROUS_KEYWORDS" "''with'' \<notin> set DANGEROUS_KEYWORDS"
  "''select'' \<in> set IDENT_CONTEXT_TOKENS" "''with'' \<in> set IDENT_CONTEXT_TOKENS"
  by (simp_all add: DANGEROUS_KEYWORDS_def IDENT_CONTEXT_TOKENS_def)

text \<open>
  Claim C2. A query that has passed the checks before the keyword scan is rejected as not
  read-only if and only if some token of its stripped, lowered, tokenized text is one of
  the dangerous keywords and the token just before it is not one of the identifier-context
  tokens.
\<close>

theorem dangerous_keyword_scan:
  assumes "tabular_validate_head raw_query = Inr (query, checked)"
  shows "tabular_validate_query raw_query
           = Inl (WorkerError ''VALIDATION_FAILED'' ''query must be read-only'')
         \<longleftrightarrow> (\<exists>i. 0 < i \<and> i < length (sql_tokens (py_lower checked))
                \<and> sql_tokens (py_lower checked) ! i \<in> set DANGEROUS_KEYWORDS
                \<and> sql_tokens (py_lower checked) ! (i - 1) \<notin> set IDENT_CONTEXT_TOKENS)"
proof -
  define ts where "ts = sql_tokens (py_lower checked)"
  obtain kw rest where ts: "ts = kw # rest" and kw: "kw = ''select'' \<or> kw = ''with''"
    using accepted_head_tokens [OF assms] unfolding ts_def by blast
  have first: "ts ! 0 \<notin> set DANGEROUS_KEYWORDS"
    using ts kw keywords_in_context by auto
  have "tabular_validate_query raw_query
          = Inl (WorkerError ''VALIDATION_FAILED'' ''query must be read-only'')
        \<longleftrightarrow> tabular_find_dangerous_keyword (py_lower checked) \<noteq> None"
    using assms by (simp add: tabular_validate_query_def validation_failed_def Let_def)
  also have "\<dots> \<longleftrightarrow> (\<exists>i<length ts. ts ! i \<in> set DANGEROUS_KEYWORDS
                \<and> \<not> (case (if i = 0 then None else Some (ts ! (i - 1))) of
                         None \<Rightarrow> False | Some p \<Rightarrow> p \<in> set IDENT_CONTEXT_TOKENS))"
    unfolding tabular_find_dangerous_keyword_def ts_def [symmetric]
    by (rule find_dangerous_loop_iff)
  also have "\<dots> \<longleftrightarrow> (\<exists>i. 0 < i \<and> i < length ts \<and> ts ! i \<in> set DANGEROUS_KEYWORDS
                \<and> ts ! (i - 1) \<notin> set IDENT_CONTEXT_TOKENS)"
    using first by (intro ex_cong1) (auto simp del: set_simps)
  finally show ?thesis
    unfolding ts_def .
qed

lemma update_query_head:
  "tabular_validate_head (Some ''SELECT 1 UPDATE data'')
     = Inr (''SELECT 1 UPDATE data'', ''SELECT 1 UPDATE data'')"
  by code_simp

lemma update_query_tokens:
  "sql_tokens (py_lower ''SELECT 1 UPDATE data'') = [''select'', ''1'', ''update'', ''data'']"
  by code_simp

lemma comment_query_head:
  "tabular_validate_head (Some ''SELECT Comment FROM data'')
     = Inr (''SELECT Comment FROM data'', ''SELECT Comment FROM data'')"
  by code_simp

lemma comment_query_tokens:
  "sql_tokens (py_lower ''SELECT Comment FROM data'')
     = [''select'', ''comment'', ''from'', ''data'']"
  by code_simp

theorem dangerous_keyword_scan_witness:
  "tabular_validate_head (Some ''SELECT 1 UPDATE data'')
     = Inr (''SELECT 1 UPDATE data'', ''SELECT 1 UPDATE data'')
   \<and> tabular_validate_query (Some ''SELECT 1 UPDATE data'')
     = Inl (WorkerError ''VALIDATION_FAILED'' ''query must be read-only'')
   \<and> tabular_validate_head (Some ''SELECT Comment FROM data'')
     = Inr (''SELECT Comment FROM data'', ''SELECT Comment FROM data'')
   \<and> tabular_validate_query (Some ''SELECT Comment FROM data'')
     \<noteq> Inl (WorkerError ''VALIDATION_FAILED'' ''query must be read-only'')"
proof -
  have "(0::nat) < 2 \<and> 2 < length [''select'', ''1'', ''update'', ''data'']
        \<and> [''select'', ''1'', ''update'', ''data''] ! 2 \<in> set DANGEROUS_KEYWORDS
        \<and> [''select'', ''1'', ''update'', ''data''] ! (2 - 1) \<notin> set IDENT_CONTEXT_TOKENS"
    by (simp add: DANGEROUS_KEYWORDS_def IDENT_CONTEXT_TOKENS_def)
  then have rejected: "tabular_validate_query (Some ''SELECT 1 UPDATE data'')
                         = Inl (WorkerError ''VALIDATION_FAILED'' ''query must be read-only'')"
    unfolding dangerous_keyword_scan [OF update_query_head] update_query_tokens
    by (rule exI)
  have "\<not> (\<exists>i. 0 < i \<and> i < length [''select'', ''comment'', ''from'', ''data'']
             \<and> [''select'', ''comment'', ''from'', ''data''] ! i \<in> set DANGEROUS_KEYWORDS
             \<and> [''select'', ''comment'', ''from'', ''data''] ! (i - 1)
                 \<notin> set IDENT_CONTEXT_TOKENS)"
    by (auto simp: DANGEROUS_KEYWORDS_def IDENT_CONTEXT_TOKENS_def nth_Cons less_Suc_eq
          split: nat.splits)
  then have accepted: "tabular_validate_query (Some ''SELECT Comment FROM data'')
                         \<noteq> Inl (WorkerError ''VALIDATION_FAILED'' ''query must be read-only'')"
    unfolding dangerous_keyword_scan [OF comment_query_head] comment_query_tokens .
  from update_query_head rejected comment_query_head accepted show ?thesis
    by (simp only: simp_thms)
qed

section \<open>A CSV export that fails has overwritten its target\<close>

text \<open>
  Claim C5. Every export writer is to stage its output in a temporary file and rename it
  into place, so that a failure before the renaming leaves the earlier content of the
  target as it was. The CSV writer opens the target itself for writing: when the first
  fetch of the cursor raises, the export fails, and the target, which held a header and
  two rows, holds the header alone; under the supervisor, with the timer fired, the
  failure surfaces as a write failure.
\<close>

theorem export_csv_overwrites_target:
  "earlier_files ''out.csv'' = Some [[''id''], [''1''], [''2'']]
   \<and> fst (export_csv str_int (Inr interrupted_cursor) None None ''out.csv'' earlier_files)
       = Inl (PyException ''RuntimeError'' ''interrupted'')
   \<and> snd (export_csv str_int (Inr interrupted_cursor) None None ''out.csv'' earlier_files)
         ''out.csv''
       = Some [[''id'']]
   \<and> fst (tabular_export_csv 5000 True
             (fst (export_csv str_int (Inr interrupted_cursor) None None ''out.csv''
                     earlier_files)))
       = Inl (WorkerError ''FILE_WRITE_FAILED'' ''query timed out after 5000ms'')"
proof -
  have run: "export_csv str_int (Inr interrupted_cursor) None None ''out.csv'' earlier_files
             = (Inl (PyException ''RuntimeError'' ''interrupted''),
                earlier_files(''out.csv'' \<mapsto> [[''id'']]))"
    by (simp add: export_csv_def interrupted_cursor_def)
  have earlier: "earlier_files ''out.csv'' = Some [[''id''], [''1''], [''2'']]"
    by (simp add: earlier_files_def)
  have failed: "fst (export_csv str_int (Inr interrupted_cursor) None None ''out.csv''
                       earlier_files)
                = Inl (PyException ''RuntimeError'' ''interrupted'')"
    by (simp only: run fst_conv)
  have written: "snd (export_csv str_int (Inr interrupted_cursor) None None ''out.csv''
                        earlier_files) ''out.csv''
                 = Some [[''id'']]"
    by (simp only: run snd_conv fun_upd_same)
  have surfaced: "fst (tabular_export_csv 5000 True
                         (Inl (PyException ''RuntimeError'' ''interrupted'')))
                  = Inl (WorkerError ''FILE_WRITE_FAILED'' ''query timed out after 5000ms'')"
    by (simp add: tabular_export_csv_def tabular_run_with_timeout_def timeout_message_5000)
  from earlier failed written surfaced show ?thesis
    by (simp only: simp_thms)
qed


section \<open>The chunk list partitions the rows\<close>

lemma chunks_loop_100:
  assumes "0 \<le> i" and "100 * i + 1 \<le> N"
  shows "chunks_loop N 100 (100 * i + 1) i acc
           = Some (acc @ map (chunk_at N) [i..(N + 99) div 100 - 1])"
  using assms
proof (induction "nat (N - 100 * i)" arbitrary: i acc rule: less_induct)
  case less
  show ?case
  proof (cases "100 * i + 100 < N")
    case True
    have step: "chunks_loop N 100 (100 * i + 1) i acc
                  = chunks_loop N 100 (100 * (i + 1) + 1) (i + 1) (acc @ [chunk_at N i])"
      using less.prems True
      by (subst chunks_loop.simps) (simp add: chunk_at_def min_def algebra_simps)
    have ih: "chunks_loop N 100 (100 * (i + 1) + 1) (i + 1) (acc @ [chunk_at N i])
                = Some ((acc @ [chunk_at N i]) @ map (chunk_at N) [i + 1..(N + 99) div 100 - 1])"
      using less.prems True by (intro less.hyps) auto
    have "i \<le> (N + 99) div 100 - 1"
      using True by linarith
    then have "[i..(N + 99) div 100 - 1] = i # [i + 1..(N + 99) div 100 - 1]"
      by (simp add: upto_rec1)
    with step ih show ?thesis by simp
  next
    case False
    have step: "chunks_loop N 100 (100 * i + 1) i acc
                  = chunks_loop N 100 (N + 1) (i + 1) (acc @ [chunk_at N i])"
      using less.prems False
      by (subst chunks_loop.simps) (simp add: chunk_at_def min_def algebra_simps)
    have stop: "chunks_loop N 100 (N + 1) (i + 1) (acc @ [chunk_at N i]) = Some (acc @ [chunk_at N i])"
      by (subst chunks_loop.simps) simp
    have "(N + 99) div 100 - 1 = i"
      using less.prems False by linarith
    then have "[i..(N + 99) div 100 - 1] = [i]"
      by simp
    with step stop show ?thesis by simp
  qed
qed

lemma tabular_chunks_closed:
  assumes "0 < N"
  shows "tabular_chunks N TABULAR_CHUNK_ROWS = Some (map (chunk_at N) [0..(N + 99) div 100 - 1])"
  using assms chunks_loop_100 [of 0 N "[]"]
  by (simp add: tabular_chunks_def TABULAR_CHUNK_ROWS_def)

lemma chunks_positive:
  assumes "0 < N"
  shows "\<exists>cs. tabular_chunks N TABULAR_CHUNK_ROWS = Some cs
          \<and> cs \<noteq> []
          \<and> (\<forall>j < length cs. chunk_index (cs ! j) = int j)
          \<and> first_row (cs ! 0) = 1
          \<and> (\<forall>j < length cs. first_row (cs ! j) \<le> last_row (cs ! j)
                 \<and> last_row (cs ! j) - first_row (cs ! j) + 1 \<le> 100)
          \<and> (\<forall>j. Suc j < length cs \<longrightarrow> first_row (cs ! Suc j) = last_row (cs ! j) + 1)
          \<and> last_row (last cs) = N"
proof -
  define m where "m = (N + 99) div 100"
  define cs where "cs = map (chunk_at N) [0..m - 1]"
  have m1: "1 \<le> m"
    using assms unfolding m_def by linarith
  have m2: "100 * (m - 1) + 1 \<le> N"
    unfolding m_def by (simp add: algebra_simps)
  have m3: "N \<le> 100 * m"
    unfolding m_def by linarith
  note m = m1 m2 m3
  have len: "length cs = nat m"
    using m by (simp add: cs_def)
  have nth: "cs ! j = chunk_at N (int j)" if "j < length cs" for j
    using that len by (simp add: cs_def)
  have 1: "tabular_chunks N TABULAR_CHUNK_ROWS = Some cs"
    using tabular_chunks_closed [OF assms] by (simp add: cs_def m_def)
  have 2: "cs \<noteq> []" using len m by auto
  have 3: "\<forall>j < length cs. chunk_index (cs ! j) = int j"
    by (simp add: nth chunk_at_def)
  have 4: "first_row (cs ! 0) = 1"
    using 2 by (simp add: nth chunk_at_def)
  have 5: "\<forall>j < length cs. first_row (cs ! j) \<le> last_row (cs ! j)
                 \<and> last_row (cs ! j) - first_row (cs ! j) + 1 \<le> 100"
  proof (intro allI impI)
    fix j assume j: "j < length cs"
    then have "int j \<le> m - 1" using len by simp
    then have "100 * int j \<le> 100 * (m - 1)" by simp
    then have "100 * int j + 1 \<le> N" using m2 by simp
    then show "first_row (cs ! j) \<le> last_row (cs ! j)
                 \<and> last_row (cs ! j) - first_row (cs ! j) + 1 \<le> 100"
      using j by (simp add: nth chunk_at_def min_def)
  qed
  have 6: "\<forall>j. Suc j < length cs \<longrightarrow> first_row (cs ! Suc j) = last_row (cs ! j) + 1"
  proof (intro allI impI)
    fix j assume j: "Suc j < length cs"
    then have "int j + 1 \<le> m - 1" using len by simp
    then have "100 * (int j + 1) \<le> 100 * (m - 1)" by simp
    then have "100 * int j + 100 < N" using m2 by simp
    then show "first_row (cs ! Suc j) = last_row (cs ! j) + 1"
      using j by (simp add: nth chunk_at_def min_def)
  qed
  have "last cs = cs ! (length cs - 1)"
    using 2 by (simp add: last_conv_nth)
  also have "\<dots> = chunk_at N (m - 1)"
    using 2 len m by (simp add: nth)
  finally have 7: "last_row (last cs) = N"
    using m by (simp add: chunk_at_def min_def)
  from 1 2 3 4 5 6 7 show ?thesis by blast
qed


text \<open>
  Claim C10. The chunk list that \<^verbatim>\<open>get_map\<close> computes with the chunk size 100
  partitions the rows: for a table of \<open>N > 0\<close> rows the loop returns, the chunks carry
  the indices 0, 1, 2, ... in order, the first range starts at row 1, every range is
  non-empty and covers at most 100 rows, every range starts right after the one before
  it ends, and the last range ends at row \<open>N\<close>; for \<open>N \<le> 0\<close> the list is empty.
\<close>

theorem tabular_chunks_partition:
  "if 0 < N
   then (\<exists>cs. tabular_chunks N TABULAR_CHUNK_ROWS = Some cs
          \<and> cs \<noteq> []
          \<and> (\<forall>j < length cs. chunk_index (cs ! j) = int j)
          \<and> first_row (cs ! 0) = 1
          \<and> (\<forall>j < length cs. first_row (cs ! j) \<le> last_row (cs ! j)
                 \<and> last_row (cs ! j) - first_row (cs ! j) + 1 \<le> 100)
          \<and> (\<forall>j. Suc j < length cs \<longrightarrow> first_row (cs ! Suc j) = last_row (cs ! j) + 1)
          \<and> last_row (last cs) = N)
   else tabular_chunks N TABULAR_CHUNK_ROWS = Some []"
proof (cases "0 < N")
  case True
  then show ?thesis using chunks_positive [of N] by simp
next
  case False
  then show ?thesis by (simp add: tabular_chunks_def)
qed

lemma tabular_chunks_250:
  "tabular_chunks 250 TABULAR_CHUNK_ROWS
     = Some [\<lparr>chunk_index = 0, first_row = 1, last_row = 100\<rparr>,
             \<lparr>chunk_index = 1, first_row = 101, last_row = 200\<rparr>,
             \<lparr>chunk_index = 2, first_row = 201, last_row = 250\<rparr>]"
  by code_simp

theorem tabular_chunks_partition_witness:
  "(0::int) < 250
   \<and> length (the (tabular_chunks 250 TABULAR_CHUNK_ROWS)) = 3
   \<and> chunk_index (the (tabular_chunks 250 TABULAR_CHUNK_ROWS) ! 2) = 2
   \<and> first_row (the (tabular_chunks 250 TABULAR_CHUNK_ROWS) ! 0) = 1
   \<and> first_row (the (tabular_chunks 250 TABULAR_CHUNK_ROWS) ! 2)
       = last_row (the (tabular_chunks 250 TABULAR_CHUNK_ROWS) ! 1) + 1
   \<and> last_row (last (the (tabular_chunks 250 TABULAR_CHUNK_ROWS))) = 250
   \<and> tabular_chunks 0 TABULAR_CHUNK_ROWS = Some []"
proof -
  from tabular_chunks_partition [of 250]
  obtain cs where cs: "tabular_chunks 250 TABULAR_CHUNK_ROWS = Some cs"
    and idx: "\<forall>j < length cs. chunk_index (cs ! j) = int j"
    and first: "first_row (cs ! 0) = 1"
    and next_row: "\<forall>j. Suc j < length cs \<longrightarrow> first_row (cs ! Suc j) = last_row (cs ! j) + 1"
    and final: "last_row (last cs) = 250"
    by auto
  have len: "length cs = 3"
    using cs tabular_chunks_250 by auto
  have "chunk_index (cs ! 2) = 2"
    using idx len by auto
  moreover have "first_row (cs ! 2) = last_row (cs ! 1) + 1"
    using next_row [rule_format, of 1] len by (simp add: numeral_2_eq_2)
  moreover have "tabular_chunks 0 TABULAR_CHUNK_ROWS = Some []"
    using tabular_chunks_partition [of 0] by simp
  ultimately show ?thesis
    using cs len first final by simp
qed
section \<open>The inferred type of the unsigned 128-bit integer\<close>

text \<open>
  Claim C9. The integral tags and their unsigned variants are to give integer. The
  function's set of integral tags holds \<^verbatim>\<open>HUGEINT\<close> and the unsigned variants of the
  four smaller widths, but not \<^verbatim>\<open>UHUGEINT\<close>, the unsigned variant of
  \<^verbatim>\<open>HUGEINT\<close>: that tag falls through every test and is inferred as string, while
  its siblings are inferred as integer.
\<close>

theorem inferred_type_unsigned_hugeint:
  "tabular_inferred_type ''UHUGEINT'' = ''string''
   \<and> tabular_inferred_type ''HUGEINT'' = ''integer''
   \<and> tabular_inferred_type ''UTINYINT'' = ''integer''
   \<and> tabular_inferred_type ''USMALLINT'' = ''integer''
   \<and> tabular_inferred_type ''UINTEGER'' = ''integer''
   \<and> tabular_inferred_type ''UBIGINT'' = ''integer''"
proof -
  have "tabular_inferred_type ''UHUGEINT'' = ''string''"
    by code_simp
  moreover have "tabular_inferred_type ''HUGEINT'' = ''integer''"
    by code_simp
  moreover have "tabular_inferred_type ''UTINYINT'' = ''integer''"
    by code_simp
  moreover have "tabular_inferred_type ''USMALLINT'' = ''integer''"
    by code_simp
  moreover have "tabular_inferred_type ''UINTEGER'' = ''integer''"
    by code_simp
  moreover have "tabular_inferred_type ''UBIGINT'' = ''integer''"
    by code_simp
  ultimately show ?thesis
    by blast
qed

section \<open>The cancellation supervisor reclassifies, re-raises or returns\<close>

text \<open>
  Claim C8, against the claim as stated. The surfaced error is not always of the
  read-failure class: the CSV export writer runs under the supervisor with the error code
  FILE_WRITE_FAILED, and an operation of its that raises after the timer has fired
  surfaces as a write failure. Nor is every exception raised after the flag has been set
  reclassified: a KeyboardInterrupt is outside \<^verbatim>\<open>Exception\<close> and passes through
  unchanged. The worker-wide timeout is 5000 ms in both runs.
\<close>

theorem supervisor_write_failure_counterexample:
  "fst (tabular_export_csv 5000 True (Inl (PyException ''RuntimeError'' ''interrupted'')))
     = Inl (WorkerError ''FILE_WRITE_FAILED'' ''query timed out after 5000ms'')
   \<and> ''FILE_WRITE_FAILED'' \<noteq> ''FILE_READ_FAILED''
   \<and> fst (tabular_run_with_timeout 5000 None None True
             (Inl (PyBaseException ''KeyboardInterrupt'' []) :: py_error + unit))
     = Inl (PyBaseException ''KeyboardInterrupt'' [])"
  by (simp add: tabular_export_csv_def tabular_run_with_timeout_def timeout_message_5000)

text \<open>
  Claim C8, amended. Let \<open>T\<close> be the timeout in force, the one passed or else the
  worker-wide setting, and let \<open>T > 0\<close>, so that a timer is started; let \<open>code\<close> be
  the error code the caller passed, FILE_READ_FAILED when it passed none. If the operation
  raises an exception of class \<^verbatim>\<open>Exception\<close> after the flag has been set, the error
  that surfaces is a WorkerError with that code and the message
  \<^verbatim>\<open>query timed out after {T}ms\<close>; if it raises with the flag unset, or raises an
  exception outside \<^verbatim>\<open>Exception\<close>, its own exception is passed on unchanged; if it
  returns, its result is returned unchanged. In all these cases the timer is cancelled on
  the way out. The callers that export pass no timeout, so for them \<open>T\<close> is the
  worker-wide setting: the CSV and the spreadsheet writer pass the code
  FILE_WRITE_FAILED, the reader of the rows for an export passes FILE_READ_FAILED.
\<close>

theorem supervisor_outcomes:
  assumes "T = (case timeout_ms of Some t \<Rightarrow> t | None \<Rightarrow> TABULAR_QUERY_TIMEOUT_MS)"
    and "0 < T"
    and "code = (case error_code of Some c \<Rightarrow> c | None \<Rightarrow> ''FILE_READ_FAILED'')"
  shows "tabular_run_with_timeout TABULAR_QUERY_TIMEOUT_MS timeout_ms error_code True
             (Inl err :: py_error + 'a)
           = (if is_exception err
              then Inl (WorkerError code (''query timed out after '' @ str_int T @ ''ms''))
              else Inl err,
              \<lparr>timer_started = True, timer_cancelled = True\<rparr>)
         \<and> tabular_run_with_timeout TABULAR_QUERY_TIMEOUT_MS timeout_ms error_code False
             (Inl err :: py_error + 'a)
           = (Inl err, \<lparr>timer_started = True, timer_cancelled = True\<rparr>)
         \<and> tabular_run_with_timeout TABULAR_QUERY_TIMEOUT_MS timeout_ms error_code fired
             (Inr (result :: 'a))
           = (Inr result, \<lparr>timer_started = True, timer_cancelled = True\<rparr>)
         \<and> (timeout_ms = None \<and> is_exception err \<longrightarrow>
              tabular_export_csv TABULAR_QUERY_TIMEOUT_MS True (Inl err)
                = (Inl (WorkerError ''FILE_WRITE_FAILED''
                          (''query timed out after '' @ str_int T @ ''ms'')),
                   \<lparr>timer_started = True, timer_cancelled = True\<rparr>)
              \<and> tabular_export_xlsx TABULAR_QUERY_TIMEOUT_MS None True (Inl err)
                = (Inl (WorkerError ''FILE_WRITE_FAILED''
                          (''query timed out after '' @ str_int T @ ''ms'')),
                   \<lparr>timer_started = True, timer_cancelled = True\<rparr>)
              \<and> tabular_query_rows_for_export TABULAR_QUERY_TIMEOUT_MS True
                  (Inl err :: py_error + string list \<times> 'a list list)
                = (Inl (WorkerError ''FILE_READ_FAILED''
                          (''query timed out after '' @ str_int T @ ''ms'')),
                   \<lparr>timer_started = True, timer_cancelled = True\<rparr>))"
proof -
  have run: "tabular_run_with_timeout TABULAR_QUERY_TIMEOUT_MS timeout_ms error_code flag
               (outcome :: py_error + 'b)
             = (case outcome of
                  Inr r \<Rightarrow> Inr r
                | Inl e \<Rightarrow>
                    if is_exception e \<and> flag
                    then Inl (WorkerError code (''query timed out after '' @ str_int T @ ''ms''))
                    else Inl e,
                \<lparr>timer_started = True, timer_cancelled = True\<rparr>)" for flag outcome
    using assms
    by (simp add: tabular_run_with_timeout_def timeout_message_def Let_def split: sum.splits)
  have callers: "tabular_run_with_timeout TABULAR_QUERY_TIMEOUT_MS None (Some c) True
                   (Inl err :: py_error + 'b)
                 = (Inl (WorkerError c (''query timed out after '' @ str_int T @ ''ms'')),
                    \<lparr>timer_started = True, timer_cancelled = True\<rparr>)"
    if "timeout_ms = None" and "is_exception err" for c
    using assms that
    by (simp add: tabular_run_with_timeout_def timeout_message_def Let_def)
  show ?thesis
    by (simp add: run callers tabular_export_csv_def tabular_export_xlsx_def
          tabular_query_rows_for_export_def)
qed

theorem supervisor_outcomes_witness:
  "(0::int) < 5000
   \<and> tabular_run_with_timeout 5000 None None True
         (Inl (PyException ''RuntimeError'' ''interrupted''))
       = (Inl (WorkerError ''FILE_READ_FAILED'' ''query timed out after 5000ms'') :: py_error + nat,
          \<lparr>timer_started = True, timer_cancelled = True\<rparr>)
   \<and> tabular_run_with_timeout 5000 None None False
         (Inl (PyException ''RuntimeError'' ''interrupted''))
       = (Inl (PyException ''RuntimeError'' ''interrupted'') :: py_error + nat,
          \<lparr>timer_started = True, timer_cancelled = True\<rparr>)
   \<and> tabular_run_with_timeout 5000 None None True (Inr (7::nat))
       = (Inr 7, \<lparr>timer_started = True, timer_cancelled = True\<rparr>)
   \<and> tabular_export_csv 5000 True (Inl (PyException ''RuntimeError'' ''interrupted''))
       = (Inl (WorkerError ''FILE_WRITE_FAILED'' ''query timed out after 5000ms''),
          \<lparr>timer_started = True, timer_cancelled = True\<rparr>)
   \<and> tabular_export_xlsx 5000 None True (Inl (PyException ''RuntimeError'' ''interrupted''))
       = (Inl (WorkerError ''FILE_WRITE_FAILED'' ''query timed out after 5000ms''),
          \<lparr>timer_started = True, timer_cancelled = True\<rparr>)
   \<and> tabular_query_rows_for_export 5000 True
         (Inl (PyException ''RuntimeError'' ''interrupted''))
       = (Inl (WorkerError ''FILE_READ_FAILED'' ''query timed out after 5000ms'')
            :: py_error + string list \<times> nat list list,
          \<lparr>timer_started = True, timer_cancelled = True\<rparr>)"
proof -
  have t: "(5000::int) = (case None of Some t \<Rightarrow> t | None \<Rightarrow> 5000)"
    and pos: "(0::int) < 5000"
    and c: "''FILE_READ_FAILED'' = (case None of Some c \<Rightarrow> c | None \<Rightarrow> ''FILE_READ_FAILED'')"
    by simp_all
  have m: "''query timed out after '' @ str_int 5000 @ ''ms'' = ''query timed out after 5000ms''"
    using timeout_message_5000 by (simp add: timeout_message_def)
  show ?thesis
    using supervisor_outcomes [OF t pos c, where err = "PyException ''RuntimeError'' ''interrupted''"
        and fired = True and result = "7::nat"] m
    by simp
qed


end
